theory Spec2Isabelle
  imports Main "HOL-Library.Sublist"
begin

section \<open>Strings\<close>

text \<open>
  JavaScript strings are modelled as lists of 8-bit characters. Case conversion and the
  white space class act on the ASCII range, which is where every literal the program
  compares against lives.
\<close>

definition upperChars :: string where
  "upperChars = ''ABCDEFGHIJKLMNOPQRSTUVWXYZ''"

definition lowerChars :: string where
  "lowerChars = ''abcdefghijklmnopqrstuvwxyz''"

definition toLowerChar :: "char \<Rightarrow> char" where
  "toLowerChar c = (case map_of (zip upperChars lowerChars) c of Some d \<Rightarrow> d | None \<Rightarrow> c)"

definition toLowerCase :: "string \<Rightarrow> string" where
  "toLowerCase s = map toLowerChar s"

text \<open>\<open>String.prototype.startsWith\<close>.\<close>

definition startsWith :: "string \<Rightarrow> string \<Rightarrow> bool" where
  "startsWith s p = prefix p s"

text \<open>\<open>String.prototype.includes\<close>.\<close>

definition str_includes :: "string \<Rightarrow> string \<Rightarrow> bool" where
  "str_includes s p = sublist p s"

text \<open>Decimal rendering of a number, as string concatenation with a number gives.\<close>

definition digitChar :: "nat \<Rightarrow> char" where
  "digitChar d = (''0123456789'' ! d)"

fun showNat :: "nat \<Rightarrow> string" where
  "showNat n = (if n < 10 then [digitChar n] else showNat (n div 10) @ [digitChar (n mod 10)])"

declare showNat.simps [simp del]

section \<open>Protocol client: session discovery (mobile/jmap.js)\<close>

datatype json =
    JNull
  | JBool bool
  | JNum int
  | JStr string
  | JArr "json list"
  | JObj "(string \<times> json) list"

text \<open>The two error classes of the module, and the engine's own \<open>TypeError\<close>.\<close>

datatype jmap_error =
    JmapAuthError string
  | JmapNetworkError string
  | TypeError string

record response =
  status :: nat
  body :: "json option"  \<comment> \<open>\<open>None\<close>: \<open>resp.json()\<close> rejects\<close>

datatype fetch_outcome =
    Rejected string       \<comment> \<open>\<open>fetch\<close> throws; the argument is \<open>err.message\<close>\<close>
  | Responded response

text \<open>A JavaScript value read from the parsed body: \<open>None\<close> is \<open>undefined\<close>.\<close>

type_synonym jsval = "json option"

record session =
  username :: string
  token :: string
  apiUrl :: jsval
  accountId :: jsval
  uploadUrl :: json
  downloadUrl :: json

definition resp_ok :: "response \<Rightarrow> bool" where
  "resp_ok r = (200 \<le> status r \<and> status r \<le> 299)"

text \<open>Property read \<open>v.k\<close>: throws on \<open>null\<close> and \<open>undefined\<close>.\<close>

definition getProp :: "jsval \<Rightarrow> string \<Rightarrow> jmap_error + jsval" where
  "getProp v k =
     (case v of
        None \<Rightarrow> Inl (TypeError ''Cannot read properties of undefined'')
      | Some JNull \<Rightarrow> Inl (TypeError ''Cannot read properties of null'')
      | Some (JObj kvs) \<Rightarrow> Inr (map_of kvs k)
      | Some _ \<Rightarrow> Inr None)"

definition truthy :: "jsval \<Rightarrow> bool" where
  "truthy v =
     (case v of
        None \<Rightarrow> False
      | Some JNull \<Rightarrow> False
      | Some (JBool b) \<Rightarrow> b
      | Some (JNum n) \<Rightarrow> n \<noteq> 0
      | Some (JStr s) \<Rightarrow> s \<noteq> []
      | Some _ \<Rightarrow> True)"

text \<open>\<open>v || null\<close>.\<close>

definition orNull :: "jsval \<Rightarrow> json" where
  "orNull v = (if truthy v then the v else JNull)"

definition mailCapability :: string where
  "mailCapability = ''urn:ietf:params:jmap:mail''"

definition buildSession :: "string \<Rightarrow> string \<Rightarrow> json \<Rightarrow> jmap_error + session" where
  "buildSession user tok data =
     (case getProp (Some data) ''apiUrl'' of
        Inl e \<Rightarrow> Inl e
      | Inr api \<Rightarrow>
     (case getProp (Some data) ''primaryAccounts'' of
        Inl e \<Rightarrow> Inl e
      | Inr accounts \<Rightarrow>
     (case getProp accounts mailCapability of
        Inl e \<Rightarrow> Inl e
      | Inr acct \<Rightarrow>
     (case getProp (Some data) ''uploadUrl'' of
        Inl e \<Rightarrow> Inl e
      | Inr up \<Rightarrow>
     (case getProp (Some data) ''downloadUrl'' of
        Inl e \<Rightarrow> Inl e
      | Inr down \<Rightarrow>
          Inr \<lparr>username = user, token = tok, apiUrl = api, accountId = acct,
               uploadUrl = orNull up, downloadUrl = orNull down\<rparr>)))))"

text \<open>\<open>connect(username, token)\<close>, with the outcome of the one \<open>fetch\<close> as an argument.\<close>

definition connect :: "string \<Rightarrow> string \<Rightarrow> fetch_outcome \<Rightarrow> jmap_error + session" where
  "connect user tok outcome =
     (case outcome of
        Rejected msg \<Rightarrow> Inl (JmapNetworkError (''Network error: '' @ msg))
      | Responded resp \<Rightarrow>
          if status resp = 401 \<or> status resp = 403 then Inl (JmapAuthError ''Invalid token'')
          else if \<not> resp_ok resp then
            Inl (JmapNetworkError (''Connection failed ('' @ showNat (status resp) @ '')''))
          else
            (case body resp of
               None \<Rightarrow> Inl (JmapNetworkError ''Invalid JSON in session response'')
             | Some data \<Rightarrow> buildSession user tok data))"

section \<open>Sync and cache engine (static/app.js)\<close>

text \<open>
  The engine's \<open>state\<close> object and the module-level caches are one record. An
  \<open>async\<close> function is cut at its \<open>await\<close>: the part that runs before the request is issued,
  and one continuation for each way the request can settle. Calls that only repaint the
  page from the state (\<open>renderEmailList\<close>, \<open>updateEmailCount\<close>, \<open>showStatus\<close>, the toast)
  leave the state alone and are not modelled.
\<close>

datatype view_name = ListView | DetailView | ComposeView

record mailbox =
  mb_id :: string
  mb_role :: "string option"

record email =
  eid :: string
  fromEmail :: "string option"   \<comment> \<open>\<open>from[0]?.email\<close>\<close>
  receivedAt :: int
  isUnread :: bool
  isFlagged :: bool
  htmlBody :: "string option"
  textBody :: "string option"

record undo_entry =
  u_action :: string
  u_emailId :: string
  u_emailData :: "email option"
  u_insertIndex :: int
  u_timestamp :: nat

text \<open>What the detail pane of the page shows.\<close>

datatype pane = PaneEmpty | PanePartial email | PaneFull email

record state =
  view :: view_name
  mailboxes :: "mailbox list"
  currentMailbox :: "mailbox option"
  emails :: "email list"
  selectedIndex :: int
  currentEmail :: "email option"
  searchQuery :: string
  undoStack :: "undo_entry list"   \<comment> \<open>the top of the stack is the last element\<close>
  currentSplit :: "string option"
  splitCounts :: "string \<rightharpoonup> int"
  emailCache :: "string \<rightharpoonup> email"
  scrollPositions :: "string \<rightharpoonup> nat"
  refillInFlight :: bool
  detailPane :: pane
  bodyScrollTop :: nat

definition CACHE_LIMIT :: nat where
  "CACHE_LIMIT = 150"

definition REFILL_THRESHOLD :: nat where
  "REFILL_THRESHOLD = 100"

subsection \<open>Array primitives\<close>

text \<open>\<open>Array.prototype.indexOf\<close>: the first position of the element, or \<open>-1\<close>.\<close>

fun indexOf :: "'a list \<Rightarrow> 'a \<Rightarrow> int" where
  "indexOf [] x = - 1"
| "indexOf (y # ys) x =
     (if y = x then 0 else (let r = indexOf ys x in if r < 0 then - 1 else r + 1))"

text \<open>
  \<open>xs.splice(start, 0, x)\<close>: a negative start counts from the end, and the start is
  clamped to the array.
\<close>

definition splice_insert :: "int \<Rightarrow> 'a \<Rightarrow> 'a list \<Rightarrow> 'a list" where
  "splice_insert start x xs =
     (let len = int (length xs);
          k = (if start < 0 then max (len + start) 0 else min start len)
      in take (nat k) xs @ [x] @ drop (nat k) xs)"

subsection \<open>Counts, undo stack, refill\<close>

definition adjustSplitCounts :: "int \<Rightarrow> state \<Rightarrow> state" where
  "adjustSplitCounts delta s =
     (let sc = splitCounts s;
          sc1 = (case sc ''all'' of Some n \<Rightarrow> sc(''all'' \<mapsto> n + delta) | None \<Rightarrow> sc);
          sc2 = (case currentSplit s of
                   None \<Rightarrow> sc1
                 | Some cs \<Rightarrow>
                     if cs \<noteq> [] \<and> cs \<noteq> ''all''
                     then (case sc1 cs of Some n \<Rightarrow> sc1(cs \<mapsto> n + delta) | None \<Rightarrow> sc1)
                     else sc1)
      in s\<lparr>splitCounts := sc2\<rparr>)"

text \<open>\<open>pushUndo\<close>; the clock reading \<open>Date.now()\<close> is an argument.\<close>

definition pushUndo :: "string \<Rightarrow> string \<Rightarrow> email option \<Rightarrow> int \<Rightarrow> nat \<Rightarrow> state \<Rightarrow> state" where
  "pushUndo action emailId emailData insertIndex now s =
     s\<lparr>undoStack := undoStack s @
        [\<lparr>u_action = action, u_emailId = emailId, u_emailData = emailData,
          u_insertIndex = insertIndex, u_timestamp = now\<rparr>]\<rparr>"

record refill_request =
  r_mailboxId :: string
  r_searchQuery :: string
  r_offset :: nat

text \<open>\<open>maybeRefillEmails\<close> up to its \<open>await\<close>: the request it issues, if any.\<close>

definition maybeRefillEmails_request :: "state \<Rightarrow> refill_request option" where
  "maybeRefillEmails_request s =
     (if refillInFlight s \<or> length (emails s) \<ge> REFILL_THRESHOLD then None
      else (case currentMailbox s of
              None \<Rightarrow> None
            | Some mb \<Rightarrow>
                Some \<lparr>r_mailboxId = mb_id mb, r_searchQuery = searchQuery s,
                      r_offset = length (emails s)\<rparr>))"

definition maybeRefillEmails_start :: "state \<Rightarrow> state" where
  "maybeRefillEmails_start s =
     (case maybeRefillEmails_request s of
        None \<Rightarrow> s
      | Some _ \<Rightarrow> s\<lparr>refillInFlight := True\<rparr>)"



text \<open>The continuation of \<open>maybeRefillEmails\<close> when the request fails.\<close>

definition maybeRefillEmails_failed :: "state \<Rightarrow> state" where
  "maybeRefillEmails_failed s = s\<lparr>refillInFlight := False\<rparr>"

subsection \<open>Removing from the list, archive and trash\<close>

definition removeEmailFromList :: "string \<Rightarrow> state \<Rightarrow> state" where
  "removeEmailFromList emailId s =
     (let s1 = s\<lparr>emails := filter (\<lambda>e. eid e \<noteq> emailId) (emails s)\<rparr>;
          s2 = (if selectedIndex s1 \<ge> int (length (emails s1))
                then s1\<lparr>selectedIndex := max 0 (int (length (emails s1)) - 1)\<rparr>
                else s1)
      in maybeRefillEmails_start s2)"

text \<open>The variables \<open>emailAction\<close> keeps across its \<open>await\<close>.\<close>

record pending_action =
  p_label :: string
  p_removedEmail :: "email option"
  p_removedIndex :: int

definition emailAction_start ::
  "string \<Rightarrow> string \<Rightarrow> nat \<Rightarrow> state \<Rightarrow> pending_action \<times> state" where
  "emailAction_start ty emailId now s =
     (let label = (if ty = ''archive'' then ''Archived'' else ''Trashed'');
          removedEmail = find (\<lambda>e. eid e = emailId) (emails s);
          removedIndex = (case removedEmail of None \<Rightarrow> - 1 | Some e \<Rightarrow> indexOf (emails s) e);
          s1 = pushUndo (toLowerCase label) emailId removedEmail removedIndex now s;
          s2 = removeEmailFromList emailId s1;
          s3 = adjustSplitCounts (- 1) s2
      in (\<lparr>p_label = label, p_removedEmail = removedEmail, p_removedIndex = removedIndex\<rparr>, s3))"

text \<open>The \<open>catch\<close> block of \<open>emailAction\<close>.\<close>

definition emailAction_failed :: "pending_action \<Rightarrow> state \<Rightarrow> state" where
  "emailAction_failed p s =
     (let s1 = s\<lparr>undoStack := butlast (undoStack s)\<rparr>;
          s2 = (case p_removedEmail p of
                  Some e \<Rightarrow> s1\<lparr>emails := splice_insert (p_removedIndex p) e (emails s1)\<rparr>
                | None \<Rightarrow> s1)
      in adjustSplitCounts 1 s2)"

subsection \<open>Undo\<close>

record move_request =
  m_emailId :: string
  m_mailboxId :: string

text \<open>\<open>performUndo\<close> up to its \<open>await\<close>: the popped entry, if any, and the new state.\<close>

definition performUndo_start :: "state \<Rightarrow> undo_entry option \<times> state" where
  "performUndo_start s =
     (if undoStack s = [] then (None, s)
      else
        (let item = last (undoStack s);
             s1 = s\<lparr>undoStack := butlast (undoStack s)\<rparr>;
             s2 = (case u_emailData item of
                     Some e \<Rightarrow>
                       (let idx = min (u_insertIndex item) (int (length (emails s1)))
                        in s1\<lparr>emails := splice_insert idx e (emails s1), selectedIndex := idx\<rparr>)
                   | None \<Rightarrow> s1)
         in (Some item, adjustSplitCounts 1 s2)))"

text \<open>The server call of \<open>performUndo\<close>: a move to the mailbox whose role is inbox.\<close>

definition performUndo_request :: "undo_entry \<Rightarrow> state \<Rightarrow> move_request option" where
  "performUndo_request item s =
     (case find (\<lambda>m. mb_role m = Some ''inbox'') (mailboxes s) of
        None \<Rightarrow> None
      | Some inbox \<Rightarrow> Some \<lparr>m_emailId = u_emailId item, m_mailboxId = mb_id inbox\<rparr>)"

text \<open>The \<open>catch\<close> block of \<open>performUndo\<close>.\<close>

definition performUndo_failed :: "undo_entry \<Rightarrow> state \<Rightarrow> state" where
  "performUndo_failed item s =
     (let s1 = (case u_emailData item of
                  Some e \<Rightarrow> s\<lparr>emails := filter (\<lambda>e. eid e \<noteq> u_emailId item) (emails s)\<rparr>
                | None \<Rightarrow> s)
      in adjustSplitCounts (- 1) s1)"

subsection \<open>Detail view\<close>

definition saveScrollPosition :: "state \<Rightarrow> state" where
  "saveScrollPosition s =
     (if view s = DetailView
      then (case currentEmail s of
              Some c \<Rightarrow> s\<lparr>scrollPositions := (scrollPositions s)(eid c \<mapsto> bodyScrollTop s)\<rparr>
            | None \<Rightarrow> s)
      else s)"

definition showView :: "view_name \<Rightarrow> state \<Rightarrow> state" where
  "showView v s =
     (let s1 = (if view s = DetailView \<and> v \<noteq> DetailView then saveScrollPosition s else s)
      in s1\<lparr>view := v\<rparr>)"

definition renderEmailDetail :: "state \<Rightarrow> state" where
  "renderEmailDetail s =
     (case currentEmail s of None \<Rightarrow> s | Some e \<Rightarrow> s\<lparr>detailPane := PaneFull e\<rparr>)"

definition renderEmailDetailPartial :: "email \<Rightarrow> state \<Rightarrow> state" where
  "renderEmailDetailPartial listItem s = s\<lparr>detailPane := PanePartial listItem\<rparr>"

text \<open>
  \<open>loadEmailDetail\<close> up to its \<open>await\<close>. The result says whether a fetch of the message
  was issued (it is not when the detail cache has the message).
\<close>

definition loadEmailDetail_start :: "string \<Rightarrow> state \<Rightarrow> bool \<times> state" where
  "loadEmailDetail_start emailId s =
     (let s1 = saveScrollPosition s in
      case emailCache s1 emailId of
        Some cached \<Rightarrow>
          (let s2 = renderEmailDetail (s1\<lparr>currentEmail := Some cached\<rparr>);
               s3 = s2\<lparr>bodyScrollTop :=
                        (case scrollPositions s2 emailId of Some y \<Rightarrow> y | None \<Rightarrow> 0)\<rparr>
           in (False, showView DetailView s3))
      | None \<Rightarrow>
          (case find (\<lambda>e. eid e = emailId) (emails s1) of
             Some listItem \<Rightarrow>
               (True, showView DetailView
                        (renderEmailDetailPartial listItem (s1\<lparr>currentEmail := Some listItem\<rparr>)))
           | None \<Rightarrow> (True, s1)))"

text \<open>The continuation of \<open>loadEmailDetail\<close> when the fetched message arrives.\<close>



subsection \<open>Selection\<close>

definition moveSelection :: "int \<Rightarrow> state \<Rightarrow> state" where
  "moveSelection delta s =
     (let newIndex = selectedIndex s + delta in
      if newIndex < 0 \<or> newIndex \<ge> int (length (emails s)) then s
      else
        (let s1 = s\<lparr>selectedIndex := newIndex\<rparr>
         in if view s1 = DetailView
            then snd (loadEmailDetail_start (eid (emails s1 ! nat (selectedIndex s1))) s1)
            else s1))"

subsection \<open>Bulk sender action\<close>

text \<open>\<open>getSelectedEmailId\<close>: \<open>None\<close> is \<open>undefined\<close>.\<close>

definition getSelectedEmailId :: "state \<Rightarrow> string option" where
  "getSelectedEmailId s =
     (if view s = DetailView \<and> currentEmail s \<noteq> None then map_option eid (currentEmail s)
      else if 0 \<le> selectedIndex s \<and> selectedIndex s < int (length (emails s))
      then Some (eid (emails s ! nat (selectedIndex s)))
      else None)"

definition goToNextEmail :: "state \<Rightarrow> state" where
  "goToNextEmail s =
     (if length (emails s) = 0 then maybeRefillEmails_start (showView ListView s)
      else
        (let nextIndex = min (selectedIndex s) (int (length (emails s)) - 1);
             s1 = s\<lparr>selectedIndex := nextIndex\<rparr>;
             s2 = (if 0 \<le> nextIndex
                   then snd (loadEmailDetail_start (eid (emails s1 ! nat nextIndex)) s1)
                   else showView ListView s1)
         in maybeRefillEmails_start s2))"

text \<open>\<open>e.from[0]?.email?.toLowerCase()\<close>.\<close>

definition senderOf :: "email \<Rightarrow> string option" where
  "senderOf e = map_option toLowerCase (fromEmail e)"

text \<open>The optimistic removal of every email of one sender, with the clamp of the selection.\<close>

definition removeSender :: "string \<Rightarrow> state \<Rightarrow> state" where
  "removeSender senderEmail s =
     (let t = s\<lparr>emails := filter (\<lambda>e. senderOf e \<noteq> Some senderEmail) (emails s)\<rparr>
      in if selectedIndex t \<ge> int (length (emails t))
         then t\<lparr>selectedIndex := max 0 (int (length (emails t)) - 1)\<rparr>
         else t)"

text \<open>
  \<open>unsubscribeAndArchiveAll\<close> up to its \<open>await\<close>: \<open>None\<close> when it returns at once, otherwise
  the emails it removed and the new state.
\<close>

definition unsubscribeAndArchiveAll_start :: "state \<Rightarrow> (email list \<times> state) option" where
  "unsubscribeAndArchiveAll_start s =
     (case getSelectedEmailId s of
        None \<Rightarrow> None
      | Some i \<Rightarrow>
          if i = [] then None
          else
            (let email = (case find (\<lambda>e. eid e = i) (emails s) of
                            Some e \<Rightarrow> Some e
                          | None \<Rightarrow> currentEmail s);
                 senderEmail = (case email of None \<Rightarrow> None | Some e \<Rightarrow> senderOf e);
                 removedEmails =
                   (case senderEmail of
                      None \<Rightarrow> []
                    | Some se \<Rightarrow>
                        if se = [] then []
                        else filter (\<lambda>e. senderOf e = Some se) (emails s));
                 s1 = (case senderEmail of
                         None \<Rightarrow> s
                       | Some se \<Rightarrow> if se = [] then s else removeSender se s);
                 s2 = (if view s1 = DetailView then goToNextEmail s1 else s1)
             in Some (removedEmails, s2)))"

text \<open>The \<open>catch\<close> block of \<open>unsubscribeAndArchiveAll\<close>; the sort is stable, newest first.\<close>

definition unsubscribeAndArchiveAll_failed :: "email list \<Rightarrow> state \<Rightarrow> state" where
  "unsubscribeAndArchiveAll_failed removedEmails s =
     (if length removedEmails > 0
      then s\<lparr>emails := sort_key (\<lambda>e. - receivedAt e) (emails s @ removedEmails)\<rparr>
      else s)"

section \<open>Content sanitizer (static/app.js)\<close>

subsection \<open>String primitives\<close>

text \<open>The ASCII white space that \<open>trim\<close> and the class \<open>\s\<close> take.\<close>

definition whitespace :: string where
  "whitespace = [CHR 0x09, CHR 0x0A, CHR 0x0B, CHR 0x0C, CHR 0x0D, CHR '' '']"

definition isSpace :: "char \<Rightarrow> bool" where
  "isSpace c = (c \<in> set whitespace)"

text \<open>\<open>String.prototype.trim\<close>.\<close>

definition trim :: "string \<Rightarrow> string" where
  "trim s = rev (dropWhile isSpace (rev (dropWhile isSpace s)))"

text \<open>\<open>s.split(d)\<close> for a separator of one character: never the empty array.\<close>

fun splitOn :: "char \<Rightarrow> string \<Rightarrow> string list" where
  "splitOn d [] = [[]]"
| "splitOn d (c # cs) =
     (if c = d then [] # splitOn d cs
      else (let r = splitOn d cs in (c # hd r) # tl r))"

text \<open>\<open>Array.prototype.join\<close>.\<close>

fun join :: "string \<Rightarrow> string list \<Rightarrow> string" where
  "join sep [] = []"
| "join sep [x] = x"
| "join sep (x # y # ys) = x @ sep @ join sep (y # ys)"

subsection \<open>Inline styles: \<open>stripColorStyles\<close>\<close>

definition colorProps :: "string list" where
  "colorProps =
     [''color'', ''background'', ''background-color'', ''background-image'',
      ''outline-color'', ''text-decoration-color'', ''text-shadow'', ''box-shadow'']"

text \<open>\<open>d.split(':')[0]?.trim().toLowerCase()\<close>.\<close>

definition propName :: "string \<Rightarrow> string" where
  "propName d = toLowerCase (trim (hd (splitOn CHR '':'' d)))"

definition isColorProp :: "string \<Rightarrow> bool" where
  "isColorProp p = list_ex (\<lambda>cp. p = cp \<or> startsWith p (cp @ ''-'')) colorProps"

text \<open>The predicate of the \<open>filter\<close> in \<open>stripColorStyles\<close>.\<close>

definition keepDecl :: "string \<Rightarrow> bool" where
  "keepDecl d = (d \<noteq> [] \<and> propName d \<noteq> [] \<and> \<not> isColorProp (propName d))"

definition stripColorStyles :: "string \<Rightarrow> string" where
  "stripColorStyles styleString =
     join ''; '' (filter keepDecl (map trim (splitOn CHR '';'' styleString)))"

subsection \<open>Style sheets: \<open>sanitizeStyleContent\<close> and \<open>scopeStyleToEmailBody\<close>\<close>

text \<open>
  \<open>s.replace(re, f)\<close> for a global regular expression whose matches are never empty. The
  matcher is given the rest of the input and answers with the length of the match that
  starts there and its replacement. The scan goes left to right and resumes after each
  match; the counter is the number of matched characters still to be skipped.
\<close>

fun replaceWith :: "(string \<Rightarrow> (nat \<times> string) option) \<Rightarrow> nat \<Rightarrow> string \<Rightarrow> string" where
  "replaceWith m k [] = []"
| "replaceWith m (Suc k) (c # cs) = replaceWith m k cs"
| "replaceWith m 0 (c # cs) =
     (case m (c # cs) of
        Some (Suc n, r) \<Rightarrow> r @ replaceWith m n cs
      | _ \<Rightarrow> c # replaceWith m 0 cs)"

definition removeMatches :: "(string \<Rightarrow> nat option) \<Rightarrow> string \<Rightarrow> string" where
  "removeMatches m s = replaceWith (\<lambda>t. map_option (\<lambda>n. (n, [])) (m t)) 0 s"

text \<open>A literal of the pattern under the flag \<open>i\<close>; the literal is given in lower case.\<close>

definition startsWithCI :: "string \<Rightarrow> string \<Rightarrow> bool" where
  "startsWithCI s p = (toLowerCase (take (length p) s) = p)"

text \<open>The class \<open>\w\<close>.\<close>

definition isWordChar :: "char \<Rightarrow> bool" where
  "isWordChar c = (c \<in> set (upperChars @ lowerChars @ ''0123456789_''))"

text \<open>\<open>/@import\b[^;]*;?/gi\<close>\<close>

definition matchImport :: "string \<Rightarrow> nat option" where
  "matchImport s =
     (if startsWithCI s ''@import'' then
        (let rest = drop 7 s in
         if rest = [] \<or> \<not> isWordChar (hd rest) then
           (let after = dropWhile (\<lambda>c. c \<noteq> CHR '';'') rest
            in Some (length s - length after + (if after = [] then 0 else 1)))
         else None)
      else None)"

text \<open>
  A keyword, \<open>\s*\<close>, an opening character, a run without the closing character, and the
  closing character: \<open>/@font-face\s*\{[^}]*\}/gi\<close>, \<open>/url\s*\([^)]*\)/gi\<close> and
  \<open>/expression\s*\([^)]*\)/gi\<close>.
\<close>

definition matchDelimited :: "string \<Rightarrow> char \<Rightarrow> char \<Rightarrow> string \<Rightarrow> nat option" where
  "matchDelimited kw opn cls s =
     (if startsWithCI s kw then
        (case dropWhile isSpace (drop (length kw) s) of
           [] \<Rightarrow> None
         | c # inner \<Rightarrow>
             if c = opn then
               (case dropWhile (\<lambda>x. x \<noteq> cls) inner of
                  [] \<Rightarrow> None
                | _ # after \<Rightarrow> Some (length s - length after))
             else None)
      else None)"

text \<open>
  A keyword, \<open>\s*\<close>, a colon, a non-empty run without semicolon and an optional semicolon:
  \<open>/-moz-binding\s*:[^;]+;?/gi\<close> and \<open>/behavior\s*:[^;]+;?/gi\<close>.
\<close>

definition matchDeclaration :: "string \<Rightarrow> string \<Rightarrow> nat option" where
  "matchDeclaration kw s =
     (if startsWithCI s kw then
        (case dropWhile isSpace (drop (length kw) s) of
           [] \<Rightarrow> None
         | c # inner \<Rightarrow>
             if c = CHR '':'' then
               (let after = dropWhile (\<lambda>x. x \<noteq> CHR '';'') inner in
                if takeWhile (\<lambda>x. x \<noteq> CHR '';'') inner = [] then None
                else Some (length s - length after + (if after = [] then 0 else 1)))
             else None)
      else None)"

definition sanitizeStyleContent :: "string \<Rightarrow> string" where
  "sanitizeStyleContent css =
     (let css1 = removeMatches matchImport css;
          css2 = removeMatches (matchDelimited ''@font-face'' CHR ''{'' CHR ''}'') css1;
          css3 = removeMatches (matchDelimited ''url'' CHR ''('' CHR '')'') css2;
          css4 = removeMatches (matchDelimited ''expression'' CHR ''('' CHR '')'') css3;
          css5 = removeMatches (matchDeclaration ''-moz-binding'') css4;
          css6 = removeMatches (matchDeclaration ''behavior'') css5
      in css6)"

text \<open>The callback of the replacement in \<open>scopeStyleToEmailBody\<close>.\<close>

definition scopeSelectors :: "string \<Rightarrow> string" where
  "scopeSelectors selectors =
     (if startsWith (trim selectors) ''@'' then selectors @ ''{''
      else join '', ''
             (map (\<lambda>x. ''#email-body '' @ x)
                (filter (\<lambda>x. length x > 0) (map trim (splitOn CHR '','' selectors))))
           @ '' {'')"

text \<open>\<open>/([^{}@]+)\{/g\<close>: a non-empty run without braces and at-sign, up to an opening brace.\<close>

definition matchSelectors :: "string \<Rightarrow> (nat \<times> string) option" where
  "matchSelectors s =
     (let selectors = takeWhile (\<lambda>c. c \<notin> set ''{}@'') s;
          after = dropWhile (\<lambda>c. c \<notin> set ''{}@'') s
      in if selectors \<noteq> [] \<and> after \<noteq> [] \<and> hd after = CHR ''{''
         then Some (length selectors + 1, scopeSelectors selectors)
         else None)"

definition scopeStyleToEmailBody :: "string \<Rightarrow> string" where
  "scopeStyleToEmailBody css = replaceWith matchSelectors 0 css"

subsection \<open>The document tree\<close>

text \<open>
  \<open>sanitizeHtml\<close> hands the string to the browser's \<open>DOMParser\<close>, works on the tree, and
  returns \<open>doc.body.innerHTML\<close>. The parser and the serialiser are the browser's; the
  model is the work on the tree. Its argument is the list of the child nodes of
  \<open>doc.body\<close> after parsing, its result the list that \<open>innerHTML\<close> serialises. An element
  has a tag name, its attributes in order (name and value, under the names the parser
  stored), and children.
\<close>

datatype node =
    Element string "(string \<times> string) list" "node list"
  | Text string
  | Comment string

type_synonym attrs = "(string \<times> string) list"

definition hasAttribute :: "string \<Rightarrow> attrs \<Rightarrow> bool" where
  "hasAttribute n as = (n \<in> set (map fst as))"

definition removeAttribute :: "string \<Rightarrow> attrs \<Rightarrow> attrs" where
  "removeAttribute n as = filter (\<lambda>a. fst a \<noteq> n) as"

text \<open>\<open>setAttribute\<close> changes the value in place, or appends a new attribute.\<close>

definition setAttribute :: "string \<Rightarrow> string \<Rightarrow> attrs \<Rightarrow> attrs" where
  "setAttribute n v as =
     (if hasAttribute n as then map (\<lambda>a. if fst a = n then (n, v) else a) as
      else as @ [(n, v)])"

definition isTag :: "string \<Rightarrow> node \<Rightarrow> bool" where
  "isTag t n = (case n of Element tg _ _ \<Rightarrow> tg = t | _ \<Rightarrow> False)"

subsection \<open>Removing dangerous elements\<close>

definition dangerousTags :: "string list" where
  "dangerousTags =
     [''script'', ''iframe'', ''object'', ''embed'', ''form'', ''input'', ''button'',
      ''meta'', ''base'', ''link'', ''svg'', ''math'']"

text \<open>\<open>doc.querySelectorAll(tag).forEach(el => el.remove())\<close>, below one node.\<close>

fun removeTag :: "string \<Rightarrow> node \<Rightarrow> node" where
  "removeTag t (Element tg as cs) =
     Element tg as (map (removeTag t) (filter (\<lambda>c. \<not> isTag t c) cs))"
| "removeTag t (Text s) = Text s"
| "removeTag t (Comment s) = Comment s"

definition removeTagAll :: "string \<Rightarrow> node list \<Rightarrow> node list" where
  "removeTagAll t ns = map (removeTag t) (filter (\<lambda>c. \<not> isTag t c) ns)"

definition removeDangerous :: "node list \<Rightarrow> node list" where
  "removeDangerous ns = foldl (\<lambda>acc t. removeTagAll t acc) ns dangerousTags"

subsection \<open>Style elements\<close>

text \<open>The getter and the setter of \<open>textContent\<close>.\<close>

fun textContent :: "node \<Rightarrow> string" where
  "textContent (Element tg as cs) = concat (map textContent cs)"
| "textContent (Text s) = s"
| "textContent (Comment s) = []"

definition setTextContent :: "string \<Rightarrow> node list" where
  "setTextContent s = (if s = [] then [] else [Text s])"

fun sanitizeStyles :: "node \<Rightarrow> node" where
  "sanitizeStyles (Element tg as cs) =
     (if tg = ''style''
      then Element tg as
             (setTextContent
                (scopeStyleToEmailBody (sanitizeStyleContent (concat (map textContent cs)))))
      else Element tg as (map sanitizeStyles cs))"
| "sanitizeStyles (Text s) = Text s"
| "sanitizeStyles (Comment s) = Comment s"

subsection \<open>Attributes\<close>

definition urlAttrs :: "string list" where
  "urlAttrs = [''href'', ''src'', ''action'', ''xlink:href'', ''formaction'']"

text \<open>
  The callback of \<open>attrs.forEach\<close>: the attribute of the snapshot it is called for, and
  the attributes the element has at that moment.
\<close>

definition sanitizeAttr :: "string \<times> string \<Rightarrow> attrs \<Rightarrow> attrs" where
  "sanitizeAttr attr cur =
     (let name = toLowerCase (fst attr);
          val = toLowerCase (snd attr)
      in if startsWith name ''on'' then removeAttribute (fst attr) cur
         else
           (let cur1 =
                  (if name \<in> set urlAttrs then
                     (let c1 = (if startsWith val ''javascript:'' \<or> startsWith val ''vbscript:''
                                then removeAttribute (fst attr) cur else cur);
                          c2 = (if startsWith val ''data:'' \<and> \<not> startsWith val ''data:image/''
                                then removeAttribute (fst attr) c1 else c1)
                      in c2)
                   else cur)
            in if name = ''style'' then
                 (if str_includes val ''expression'' \<or> str_includes val ''javascript''
                  then removeAttribute (fst attr) cur1
                  else
                    (let cleaned = stripColorStyles (snd attr)
                     in if cleaned \<noteq> [] then setAttribute ''style'' cleaned cur1
                        else removeAttribute ''style'' cur1))
               else cur1))"

text \<open>The URL branch and the style branch of the callback, each on its own.\<close>

definition urlStep :: "string \<times> string \<Rightarrow> attrs \<Rightarrow> attrs" where
  "urlStep attr cur =
     (if toLowerCase (fst attr) \<in> set urlAttrs then
        (let c1 = (if startsWith (toLowerCase (snd attr)) ''javascript:''
                      \<or> startsWith (toLowerCase (snd attr)) ''vbscript:''
                   then removeAttribute (fst attr) cur else cur);
             c2 = (if startsWith (toLowerCase (snd attr)) ''data:''
                      \<and> \<not> startsWith (toLowerCase (snd attr)) ''data:image/''
                   then removeAttribute (fst attr) c1 else c1)
         in c2)
      else cur)"

definition styleStep :: "string \<times> string \<Rightarrow> attrs \<Rightarrow> attrs" where
  "styleStep attr cur1 =
     (if toLowerCase (fst attr) = ''style'' then
        (if str_includes (toLowerCase (snd attr)) ''expression''
            \<or> str_includes (toLowerCase (snd attr)) ''javascript''
         then removeAttribute (fst attr) cur1
         else
           (let cleaned = stripColorStyles (snd attr)
            in if cleaned \<noteq> [] then setAttribute ''style'' cleaned cur1
               else removeAttribute ''style'' cur1))
      else cur1)"

text \<open>The callback of \<open>doc.querySelectorAll('*').forEach\<close>, on the attributes of one element.\<close>

definition sanitizeElementAttrs :: "attrs \<Rightarrow> attrs" where
  "sanitizeElementAttrs as =
     (let a1 = (if hasAttribute ''bgcolor'' as then removeAttribute ''bgcolor'' as else as);
          a2 = (if hasAttribute ''color'' a1 then removeAttribute ''color'' a1 else a1)
      in foldl (\<lambda>cur attr. sanitizeAttr attr cur) a2 a2)"

fun sanitizeAttrs :: "node \<Rightarrow> node" where
  "sanitizeAttrs (Element tg as cs) = Element tg (sanitizeElementAttrs as) (map sanitizeAttrs cs)"
| "sanitizeAttrs (Text s) = Text s"
| "sanitizeAttrs (Comment s) = Comment s"

subsection \<open>Links\<close>

text \<open>The callback of \<open>doc.querySelectorAll('a[href]').forEach\<close>.\<close>

definition openInNewTab :: "string \<Rightarrow> attrs \<Rightarrow> attrs" where
  "openInNewTab tg as =
     (if tg = ''a'' \<and> hasAttribute ''href'' as
      then setAttribute ''rel'' ''noopener noreferrer'' (setAttribute ''target'' ''_blank'' as)
      else as)"

fun retargetLinks :: "node \<Rightarrow> node" where
  "retargetLinks (Element tg as cs) = Element tg (openInNewTab tg as) (map retargetLinks cs)"
| "retargetLinks (Text s) = Text s"
| "retargetLinks (Comment s) = Comment s"

subsection \<open>\<open>sanitizeHtml\<close>\<close>

definition sanitizeHtml :: "node list \<Rightarrow> node list" where
  "sanitizeHtml nodes =
     map retargetLinks (map sanitizeAttrs (map sanitizeStyles (removeDangerous nodes)))"

subsection \<open>What the sanitizer must not let through\<close>

definition eventHandlerAttr :: "string \<times> string \<Rightarrow> bool" where
  "eventHandlerAttr a = startsWith (toLowerCase (fst a)) ''on''"

definition scriptUrlAttr :: "string \<times> string \<Rightarrow> bool" where
  "scriptUrlAttr a =
     (toLowerCase (fst a) \<in> set urlAttrs
      \<and> (startsWith (toLowerCase (snd a)) ''javascript:''
         \<or> startsWith (toLowerCase (snd a)) ''vbscript:''
         \<or> (startsWith (toLowerCase (snd a)) ''data:''
            \<and> \<not> startsWith (toLowerCase (snd a)) ''data:image/'')))"

definition unsafeAttr :: "string \<times> string \<Rightarrow> bool" where
  "unsafeAttr a = (eventHandlerAttr a \<or> scriptUrlAttr a)"

text \<open>Every element of the subtree, the node itself included, satisfies the predicate.\<close>

fun allElements :: "(string \<Rightarrow> attrs \<Rightarrow> bool) \<Rightarrow> node \<Rightarrow> bool" where
  "allElements P (Element tg as cs) = (P tg as \<and> list_all (allElements P) cs)"
| "allElements P (Text s) = True"
| "allElements P (Comment s) = True"

text \<open>
  No element of the subtree has a dangerous tag, an event handler attribute or a URL
  attribute with a script or non-image data scheme.
\<close>

definition safeNode :: "node \<Rightarrow> bool" where
  "safeNode n =
     allElements (\<lambda>tg as. tg \<notin> set dangerousTags \<and> list_all (\<lambda>a. \<not> unsafeAttr a) as) n"





text \<open>A string that \<open>trim\<close> leaves alone.\<close>

definition trimmed :: "string \<Rightarrow> bool" where
  "trimmed t = (t = [] \<or> (\<not> isSpace (hd t) \<and> \<not> isSpace (last t)))"


section \<open>Action sequences and scenarios\<close>

text \<open>The engine's \<open>state\<close> object as the script creates it.\<close>

definition initialState :: state where
  "initialState =
     \<lparr>view = ListView, mailboxes = [], currentMailbox = None, emails = [], selectedIndex = 0,
      currentEmail = None, searchQuery = [], undoStack = [], currentSplit = Some ''all'',
      splitCounts = Map.empty, emailCache = Map.empty, scrollPositions = Map.empty,
      refillInFlight = False, detailPane = PaneEmpty, bodyScrollTop = 0\<rparr>"

text \<open>A list item with the given id and no body.\<close>

definition summary :: "string \<Rightarrow> email" where
  "summary i = \<lparr>eid = i, fromEmail = None, receivedAt = 0, isUnread = False, isFlagged = False,
                htmlBody = None, textBody = None\<rparr>"



text \<open>The selection points into the list, or is 0 when the list is empty.\<close>

definition inBounds :: "state \<Rightarrow> bool" where
  "inBounds s =
     (if emails s = [] then selectedIndex s = 0
      else 0 \<le> selectedIndex s \<and> selectedIndex s \<le> int (length (emails s)) - 1)"

definition exInbox :: mailbox where
  "exInbox = \<lparr>mb_id = ''mb-inbox'', mb_role = Some ''inbox''\<rparr>"

definition exArchive :: mailbox where
  "exArchive = \<lparr>mb_id = ''mb-archive'', mb_role = Some ''archive''\<rparr>"

text \<open>The archive mailbox is open and holds one message.\<close>

definition archiveViewState :: state where
  "archiveViewState =
     initialState\<lparr>mailboxes := [exInbox, exArchive], currentMailbox := Some exArchive,
                  emails := [summary ''x'']\<rparr>"

text \<open>The inbox is open and the cache holds five summaries.\<close>

definition fiveState :: state where
  "fiveState =
     initialState\<lparr>mailboxes := [exInbox, exArchive], currentMailbox := Some exInbox,
       emails := [summary ''1'', summary ''2'', summary ''3'', summary ''4'', summary ''5'']\<rparr>"

definition afterArchive3 :: state where
  "afterArchive3 = snd (emailAction_start ''archive'' ''3'' 0 fiveState)"





text \<open>
  Two messages, the second selected; it is archived, the archive is undone, and the
  server call of the undo fails.
\<close>

definition twoEmailState :: state where
  "twoEmailState = initialState\<lparr>emails := [summary ''a'', summary ''x''], selectedIndex := 1\<rparr>"

definition afterArchiveX :: state where
  "afterArchiveX = snd (emailAction_start ''archive'' ''x'' 0 twoEmailState)"

definition afterUndoX :: state where
  "afterUndoX = snd (performUndo_start afterArchiveX)"

definition afterUndoFailedX :: state where
  "afterUndoFailedX = performUndo_failed (the (fst (performUndo_start afterArchiveX))) afterUndoX"

text \<open>Parsed message bodies.\<close>

definition exMail :: "node list" where
  "exMail =
     [Element ''a'' [(''href'', ''JavaScript:alert(1)''), (''onclick'', ''x()''),
                     (''bgcolor'', ''red'')] [Text ''x''],
      Element ''a'' [(''href'', ''https://a.b''), (''target'', ''_self'')] [],
      Element ''img'' [(''src'', ''data:image/png;base64,AA''), (''onerror'', ''x()'')] [],
      Element ''img'' [(''src'', ''data:text/html,x'')] [],
      Element ''svg'' [(''viewBox'', ''0 0 1 1'')] [Element ''script'' [] [Text ''evil()'']],
      Element ''div'' [(''style'', ''COLOR: red; margin:4px;; background-position: 0'')]
        [Element ''iframe'' [(''src'', ''https://a.b'')] [], Comment ''c'']]"




text \<open>A link whose target is a script URL, as written and with a space in front.\<close>

definition exScriptLink :: "node list" where
  "exScriptLink = [Element ''a'' [(''href'', ''javascript:alert(1)'')] [Text ''x'']]"

definition exSpacedScriptLink :: "node list" where
  "exSpacedScriptLink = [Element ''a'' [(''href'', '' javascript:alert(1)'')] [Text ''x'']]"

section \<open>Session discovery: error mapping\<close>

text \<open>
  C8 (as stated, refuted): a response with a success status whose body does not parse is
  reported with the same error class as a transport failure; the module has no separate
  protocol error class.
\<close>

theorem connect_malformed_body_is_network_error:
  "connect ''u'' ''t'' (Responded \<lparr>status = 200, body = None\<rparr>)
     = Inl (JmapNetworkError ''Invalid JSON in session response'')
   \<and> connect ''u'' ''t'' (Rejected ''offline'')
     = Inl (JmapNetworkError ''Network error: offline'')"
  by (simp add: connect_def resp_ok_def)

text \<open>
  C8 (amended): session discovery maps HTTP 401 and 403 to \<open>JmapAuthError\<close>, every
  other status outside 200..299 and every failure of the transport to
  \<open>JmapNetworkError\<close>, and a body that does not parse to \<open>JmapNetworkError\<close> as well.
\<close>

theorem connect_error_mapping:
  "(status resp = 401 \<or> status resp = 403 \<longrightarrow>
      connect user tok (Responded resp) = Inl (JmapAuthError ''Invalid token''))
   \<and> (status resp \<noteq> 401 \<and> status resp \<noteq> 403 \<and> \<not> resp_ok resp \<longrightarrow>
      connect user tok (Responded resp)
        = Inl (JmapNetworkError (''Connection failed ('' @ showNat (status resp) @ '')'')))
   \<and> connect user tok (Rejected msg) = Inl (JmapNetworkError (''Network error: '' @ msg))
   \<and> (resp_ok resp \<and> body resp = None \<longrightarrow>
      connect user tok (Responded resp)
        = Inl (JmapNetworkError ''Invalid JSON in session response''))"
  by (auto simp: connect_def resp_ok_def)

theorem connect_error_mapping_witness:
  "connect ''u'' ''t'' (Responded \<lparr>status = 403, body = None\<rparr>)
     = Inl (JmapAuthError ''Invalid token'')
   \<and> connect ''u'' ''t'' (Responded \<lparr>status = 500, body = None\<rparr>)
     = Inl (JmapNetworkError ''Connection failed (500)'')
   \<and> connect ''u'' ''t'' (Responded \<lparr>status = 204, body = None\<rparr>)
     = Inl (JmapNetworkError ''Invalid JSON in session response'')"
proof -
  have s: "showNat 500 = ''500''"
    by (simp add: showNat.simps digitChar_def)
  show ?thesis
    using connect_error_mapping [of "\<lparr>status = 403, body = None\<rparr>" "''u''" "''t''" "''x''"]
      connect_error_mapping [of "\<lparr>status = 500, body = None\<rparr>" "''u''" "''t''" "''x''"]
      connect_error_mapping [of "\<lparr>status = 204, body = None\<rparr>" "''u''" "''t''" "''x''"]
    by (simp add: resp_ok_def s)
qed

section \<open>Engine: frame lemmas\<close>

lemma emails_adjustSplitCounts [simp]: "emails (adjustSplitCounts d s) = emails s"
  by (simp add: adjustSplitCounts_def Let_def)

lemma undoStack_adjustSplitCounts [simp]: "undoStack (adjustSplitCounts d s) = undoStack s"
  by (simp add: adjustSplitCounts_def Let_def)

lemma selectedIndex_adjustSplitCounts [simp]:
  "selectedIndex (adjustSplitCounts d s) = selectedIndex s"
  by (simp add: adjustSplitCounts_def Let_def)

lemma mailboxes_adjustSplitCounts [simp]: "mailboxes (adjustSplitCounts d s) = mailboxes s"
  by (simp add: adjustSplitCounts_def Let_def)

lemma emails_maybeRefillEmails_start [simp]: "emails (maybeRefillEmails_start s) = emails s"
  by (simp add: maybeRefillEmails_start_def split: option.splits)

lemma undoStack_maybeRefillEmails_start [simp]:
  "undoStack (maybeRefillEmails_start s) = undoStack s"
  by (simp add: maybeRefillEmails_start_def split: option.splits)

lemma selectedIndex_maybeRefillEmails_start [simp]:
  "selectedIndex (maybeRefillEmails_start s) = selectedIndex s"
  by (simp add: maybeRefillEmails_start_def split: option.splits)

lemma mailboxes_maybeRefillEmails_start [simp]:
  "mailboxes (maybeRefillEmails_start s) = mailboxes s"
  by (simp add: maybeRefillEmails_start_def split: option.splits)

lemma emails_removeEmailFromList [simp]:
  "emails (removeEmailFromList i s) = filter (\<lambda>e. eid e \<noteq> i) (emails s)"
  by (simp add: removeEmailFromList_def Let_def)

lemma undoStack_removeEmailFromList [simp]:
  "undoStack (removeEmailFromList i s) = undoStack s"
  by (simp add: removeEmailFromList_def Let_def)

lemmas engine_defs =
  initialState_def summary_def emailAction_start_def emailAction_failed_def
  performUndo_start_def performUndo_failed_def performUndo_request_def pushUndo_def
  removeEmailFromList_def maybeRefillEmails_start_def maybeRefillEmails_request_def
  adjustSplitCounts_def splice_insert_def REFILL_THRESHOLD_def Let_def
  exInbox_def exArchive_def

section \<open>Engine: removing and reinserting a list item\<close>


lemma splice_insert_0 [simp]: "splice_insert 0 x xs = x # xs"
  by (simp add: splice_insert_def)



lemma filter_other_ids: "i \<notin> eid ` set xs \<Longrightarrow> filter (\<lambda>e. eid e \<noteq> i) xs = xs"
  by (induction xs) auto



lemma filter_splice_insert:
  assumes "i \<notin> eid ` set xs" "eid e = i"
  shows "filter (\<lambda>x. eid x \<noteq> i) (splice_insert k e xs) = xs"
proof -
  have "\<And>n. filter (\<lambda>x. eid x \<noteq> i) (take n xs) = take n xs"
    using assms(1) by (intro filter_other_ids) (auto dest: in_set_takeD)
  moreover have "\<And>n. filter (\<lambda>x. eid x \<noteq> i) (drop n xs) = drop n xs"
    using assms(1) by (intro filter_other_ids) (auto dest: in_set_dropD)
  ultimately show ?thesis
    using assms(2) by (simp add: splice_insert_def Let_def)
qed

section \<open>Engine: rollback of a failed archive or trash\<close>



section \<open>Engine: undo\<close>







text \<open>
  C9 (as stated, refuted): a message trashed while the archive mailbox is open is moved,
  on undo, to the inbox and not to the mailbox the action was taken in.
\<close>

theorem undo_moves_to_inbox_not_origin:
  "currentMailbox archiveViewState = Some exArchive
   \<and> emails (snd (emailAction_start ''trash'' ''x'' 0 archiveViewState)) = []
   \<and> performUndo_request
        (the (fst (performUndo_start (snd (emailAction_start ''trash'' ''x'' 0 archiveViewState)))))
        (snd (performUndo_start (snd (emailAction_start ''trash'' ''x'' 0 archiveViewState))))
      = Some \<lparr>m_emailId = ''x'', m_mailboxId = ''mb-inbox''\<rparr>
   \<and> mb_id exArchive = ''mb-archive''"
  by (simp add: archiveViewState_def engine_defs)

text \<open>
  C9 (amended): undo pops the last entry and, when the entry carries the email the undone
  action took out of the list, first puts it back into the local list (at the recorded
  index, clamped to the list), then asks the server to move the message to the mailbox
  whose role is inbox (no call when there is none); if the call fails the reinserted item
  is filtered out again by id, which leaves the list as it was before the undo.
\<close>

theorem undo_optimistic:
  assumes "undoStack s \<noteq> []"
    and "u_emailData (last (undoStack s)) = Some e"
    and "eid e = u_emailId (last (undoStack s))"
    and "u_emailId (last (undoStack s)) \<notin> eid ` set (emails s)"
  shows "fst (performUndo_start s) = Some (last (undoStack s))
       \<and> emails (snd (performUndo_start s))
           = splice_insert (min (u_insertIndex (last (undoStack s))) (int (length (emails s))))
               e (emails s)
       \<and> performUndo_request (last (undoStack s)) (snd (performUndo_start s))
           = map_option (\<lambda>inbox. \<lparr>m_emailId = u_emailId (last (undoStack s)),
                                   m_mailboxId = mb_id inbox\<rparr>)
               (find (\<lambda>m. mb_role m = Some ''inbox'') (mailboxes s))
       \<and> emails (performUndo_failed (last (undoStack s)) (snd (performUndo_start s))) = emails s"
proof -
  have m: "mailboxes (snd (performUndo_start s)) = mailboxes s"
    by (simp add: performUndo_start_def Let_def split: option.splits)
  have r: "performUndo_request (last (undoStack s)) (snd (performUndo_start s))
           = map_option (\<lambda>inbox. \<lparr>m_emailId = u_emailId (last (undoStack s)),
                                   m_mailboxId = mb_id inbox\<rparr>)
               (find (\<lambda>m. mb_role m = Some ''inbox'') (mailboxes s))"
    by (simp add: performUndo_request_def m split: option.splits)
  have i: "emails (snd (performUndo_start s))
           = splice_insert (min (u_insertIndex (last (undoStack s))) (int (length (emails s))))
               e (emails s)"
    using assms(1,2) by (simp add: performUndo_start_def Let_def)
  have f: "emails (performUndo_failed (last (undoStack s)) (snd (performUndo_start s))) = emails s"
    using assms(2) filter_splice_insert [OF assms(4) assms(3)]
    by (simp add: performUndo_failed_def i Let_def)
  from assms(1) i r f show ?thesis
    by (simp add: performUndo_start_def Let_def)
qed

theorem undo_optimistic_witness:
  "map eid (emails afterArchive3) = [''1'', ''2'', ''4'', ''5'']
   \<and> map eid (emails (snd (performUndo_start afterArchive3))) = [''1'', ''2'', ''3'', ''4'', ''5'']
   \<and> performUndo_request (last (undoStack afterArchive3)) (snd (performUndo_start afterArchive3))
       = Some \<lparr>m_emailId = ''3'', m_mailboxId = ''mb-inbox''\<rparr>
   \<and> emails (performUndo_failed (last (undoStack afterArchive3))
               (snd (performUndo_start afterArchive3))) = emails afterArchive3"
proof -
  have u: "undoStack afterArchive3
      = [\<lparr>u_action = ''archived'', u_emailId = ''3'', u_emailData = Some (summary ''3''),
          u_insertIndex = 2, u_timestamp = 0\<rparr>]"
    by (simp add: afterArchive3_def fiveState_def engine_defs toLowerCase_def toLowerChar_def
        upperChars_def lowerChars_def)
  have e: "emails afterArchive3 = [summary ''1'', summary ''2'', summary ''4'', summary ''5'']"
    by (simp add: afterArchive3_def fiveState_def engine_defs)
  have mb: "mailboxes afterArchive3 = [exInbox, exArchive]"
    by (simp add: afterArchive3_def fiveState_def engine_defs)
  have h1: "undoStack afterArchive3 \<noteq> []" by (simp add: u)
  have h2: "u_emailData (last (undoStack afterArchive3)) = Some (summary ''3'')" by (simp add: u)
  have h3: "eid (summary ''3'') = u_emailId (last (undoStack afterArchive3))"
    by (simp add: u summary_def)
  have h4: "u_emailId (last (undoStack afterArchive3)) \<notin> eid ` set (emails afterArchive3)"
    by (simp add: u e summary_def)
  from undo_optimistic [OF h1 h2 h3 h4] show ?thesis
    by (simp add: u e mb splice_insert_def summary_def exInbox_def exArchive_def)
qed

section \<open>Engine: pagination refill\<close>




section \<open>Engine: detail fetch and the staleness guard\<close>



section \<open>Engine: the selection index\<close>

text \<open>
  Removal, bulk sender removal and its rollback, navigation, the rollback of archive and
  trash, and the reinsertion by undo keep the selection in bounds.
\<close>

lemma removeEmailFromList_inBounds: "inBounds s \<Longrightarrow> inBounds (removeEmailFromList i s)"
  by (cases "emails s = []") (auto simp: inBounds_def removeEmailFromList_def Let_def)

lemma emailAction_failed_inBounds: "inBounds s \<Longrightarrow> inBounds (emailAction_failed p s)"
  by (cases "emails s = []")
    (auto simp: inBounds_def emailAction_failed_def splice_insert_def Let_def
      split: option.splits)

lemma performUndo_start_inBounds:
  assumes "inBounds s" "undoStack s \<noteq> [] \<Longrightarrow> 0 \<le> u_insertIndex (last (undoStack s))"
  shows "inBounds (snd (performUndo_start s))"
  using assms
  by (cases "emails s = []")
    (auto simp: inBounds_def performUndo_start_def splice_insert_def Let_def
      split: option.splits)

lemma loadEmailDetail_start_list:
  "emails (snd (loadEmailDetail_start i s)) = emails s
   \<and> selectedIndex (snd (loadEmailDetail_start i s)) = selectedIndex s"
  by (simp add: loadEmailDetail_start_def showView_def saveScrollPosition_def
      renderEmailDetail_def renderEmailDetailPartial_def Let_def split: option.splits)

lemma moveSelection_inBounds: "inBounds s \<Longrightarrow> inBounds (moveSelection delta s)"
  by (cases "emails s = []")
    (auto simp: inBounds_def moveSelection_def loadEmailDetail_start_list Let_def)

lemma goToNextEmail_inBounds: "inBounds s \<Longrightarrow> inBounds (goToNextEmail s)"
  by (cases "emails s = []")
    (auto simp: inBounds_def goToNextEmail_def loadEmailDetail_start_list showView_def
      saveScrollPosition_def Let_def min_def split: option.splits)

lemma removeSender_inBounds: "inBounds s \<Longrightarrow> inBounds (removeSender se s)"
  by (cases "emails s = []") (auto simp: inBounds_def removeSender_def Let_def)

lemma unsubscribeAndArchiveAll_start_inBounds:
  assumes "inBounds s" "unsubscribeAndArchiveAll_start s = Some (removed, s')"
  shows "inBounds s'"
  using assms
  by (auto simp: unsubscribeAndArchiveAll_start_def Let_def goToNextEmail_inBounds
      removeSender_inBounds split: option.splits if_splits)

lemma sort_key_Nil_iff: "sort_key f xs = [] \<longleftrightarrow> xs = []"
  by (metis length_0_conv length_sort)

lemma unsubscribeAndArchiveAll_failed_inBounds:
  "inBounds s \<Longrightarrow> inBounds (unsubscribeAndArchiveAll_failed removed s)"
  by (cases "emails s = []")
    (auto simp: inBounds_def unsubscribeAndArchiveAll_failed_def sort_key_Nil_iff)

text \<open>
  C10 (the code at the failing input): a list of two messages with the second selected;
  the second is archived, the archive is undone, and the server call of the undo fails.
  The selection is in bounds up to the undo; the failure handler filters the reinserted
  item out and leaves \<open>selectedIndex = 1\<close> for a list of length 1.
\<close>

theorem undo_failure_leaves_index_out_of_range:
  "inBounds twoEmailState \<and> inBounds afterArchiveX \<and> inBounds afterUndoX
   \<and> emails afterUndoX = [summary ''a'', summary ''x''] \<and> selectedIndex afterUndoX = 1
   \<and> emails afterUndoFailedX = [summary ''a''] \<and> selectedIndex afterUndoFailedX = 1
   \<and> \<not> inBounds afterUndoFailedX"
  by (simp add: afterUndoFailedX_def afterUndoX_def afterArchiveX_def twoEmailState_def
      inBounds_def engine_defs)

section \<open>Sanitizer: strings\<close>

lemma splitOn_nonempty [simp]: "splitOn d s \<noteq> []"
  by (induction s) (auto simp: Let_def)




lemma last_dropWhile: "dropWhile P xs \<noteq> [] \<Longrightarrow> last (dropWhile P xs) = last xs"
  by (metis last_appendR takeWhile_dropWhile_id)

lemma trimmed_trim: "trimmed (trim s)"
proof (cases "trim s = []")
  case True
  then show ?thesis by (simp add: trimmed_def)
next
  case False
  let ?a = "dropWhile isSpace s"
  let ?b = "dropWhile isSpace (rev ?a)"
  from False have b: "?b \<noteq> []" by (simp add: trim_def)
  then have a: "?a \<noteq> []" by (metis dropWhile.simps(1) rev.simps(1))
  from b have "\<not> isSpace (hd ?b)" by (rule hd_dropWhile)
  then have l: "\<not> isSpace (last (trim s))" using b by (simp add: trim_def last_rev)
  from b have "last ?b = last (rev ?a)" by (rule last_dropWhile)
  then have "hd (trim s) = hd ?a" using a b by (simp add: trim_def hd_rev last_rev)
  moreover from a have "\<not> isSpace (hd ?a)" by (rule hd_dropWhile)
  ultimately show ?thesis using l by (simp add: trimmed_def)
qed

lemma dropWhile_hd_id: "xs = [] \<or> \<not> P (hd xs) \<Longrightarrow> dropWhile P xs = xs"
  by (cases xs) auto

lemma trim_trimmed: "trimmed t \<Longrightarrow> trim t = t"
proof (cases "t = []")
  case True
  then show ?thesis by (simp add: trim_def)
next
  case False
  assume "trimmed t"
  with False have h: "\<not> isSpace (hd t)" and l: "\<not> isSpace (last t)"
    by (auto simp: trimmed_def)
  from h have 1: "dropWhile isSpace t = t" by (intro dropWhile_hd_id) simp
  from l False have 2: "dropWhile isSpace (rev t) = rev t"
    by (intro dropWhile_hd_id) (simp add: hd_rev)
  show ?thesis by (simp add: trim_def 1 2)
qed

lemma trim_idem [simp]: "trim (trim s) = trim s"
  by (rule trim_trimmed) (rule trimmed_trim)





lemma isSpace_space [simp]: "isSpace CHR '' ''"
  by (simp add: isSpace_def whitespace_def)




section \<open>Sanitizer: the tree passes\<close>

lemmas lower_defs = toLowerCase_def toLowerChar_def upperChars_def lowerChars_def


lemma allElements_conj:
  "allElements (\<lambda>tg as. P tg as \<and> Q tg as) n \<longleftrightarrow> allElements P n \<and> allElements Q n"
  by (induction n) (auto simp: list_all_iff)

lemma removeTag_allElements:
  "allElements P n \<Longrightarrow> allElements P (removeTag t n)"
  by (induction n) (auto simp: list_all_iff)

lemma removeTag_no_tag:
  "\<not> isTag t n \<Longrightarrow> allElements (\<lambda>tg as. tg \<noteq> t) (removeTag t n)"
  by (induction n) (auto simp: list_all_iff isTag_def)

lemma removeTagAll_allElements:
  "list_all (allElements P) ns \<Longrightarrow> list_all (allElements P) (removeTagAll t ns)"
  by (auto simp: removeTagAll_def list_all_iff removeTag_allElements)

lemma removeTagAll_no_tag:
  "list_all (allElements (\<lambda>tg as. tg \<noteq> t)) (removeTagAll t ns)"
  by (auto simp: removeTagAll_def list_all_iff removeTag_no_tag)

lemma foldl_removeTagAll:
  "list_all (allElements (\<lambda>tg as. tg \<notin> S)) ns \<Longrightarrow>
   list_all (allElements (\<lambda>tg as. tg \<notin> S \<union> set ts))
     (foldl (\<lambda>acc t. removeTagAll t acc) ns ts)"
proof (induction ts arbitrary: ns S)
  case Nil
  then show ?case by simp
next
  case (Cons t ts)
  have a: "list_all (allElements (\<lambda>tg as. tg \<notin> S)) (removeTagAll t ns)"
    using Cons.prems by (rule removeTagAll_allElements)
  have b: "list_all (allElements (\<lambda>tg as. tg \<noteq> t)) (removeTagAll t ns)"
    by (rule removeTagAll_no_tag)
  from a b have "list_all (allElements (\<lambda>tg as. tg \<notin> insert t S)) (removeTagAll t ns)"
    by (simp add: list_all_iff allElements_conj)
  from Cons.IH [OF this] show ?case by simp
qed

lemma removeDangerous_no_dangerous:
  "list_all (allElements (\<lambda>tg as. tg \<notin> set dangerousTags)) (removeDangerous ns)"
proof -
  have "allElements (\<lambda>tg as. tg \<notin> {}) n" for n
    by (induction n) (auto simp: list_all_iff)
  then have "list_all (allElements (\<lambda>tg as. tg \<notin> {})) ns"
    by (simp add: list_all_iff)
  from foldl_removeTagAll [OF this, of dangerousTags] show ?thesis
    by (simp add: removeDangerous_def)
qed


lemma set_removeAttribute: "set (removeAttribute n as) = {a \<in> set as. fst a \<noteq> n}"
  by (auto simp: removeAttribute_def)

lemma set_setAttribute: "x \<in> set (setAttribute n v as) \<Longrightarrow> x \<in> set as \<or> x = (n, v)"
  by (auto simp: setAttribute_def split: if_splits)

lemma lower_style [simp]: "toLowerCase ''style'' = ''style''"
  by (simp add: lower_defs)

lemma unsafe_not_style: "unsafeAttr a \<Longrightarrow> fst a \<noteq> ''style''"
  by (auto simp: unsafeAttr_def eventHandlerAttr_def scriptUrlAttr_def startsWith_def urlAttrs_def)

lemma in_removeAttribute: "x \<in> set (removeAttribute n as) \<Longrightarrow> x \<in> set as"
  by (simp add: set_removeAttribute)

lemma style_not_url [simp]: "''style'' \<notin> set urlAttrs"
  by (simp add: urlAttrs_def)

lemma sanitizeAttr_steps:
  "sanitizeAttr attr cur =
     (if startsWith (toLowerCase (fst attr)) ''on'' then removeAttribute (fst attr) cur
      else styleStep attr (urlStep attr cur))"
  by (simp add: sanitizeAttr_def urlStep_def styleStep_def Let_def)

lemma urlStep_subset: "x \<in> set (urlStep a cur) \<Longrightarrow> x \<in> set cur"
  by (simp add: urlStep_def Let_def set_removeAttribute split: if_splits)

lemma styleStep_subset: "x \<in> set (styleStep a cur) \<Longrightarrow> x \<in> set cur \<or> fst x = ''style''"
  by (auto simp: styleStep_def Let_def set_removeAttribute split: if_splits
      dest: set_setAttribute)

lemma sanitizeAttr_subset:
  "x \<in> set (sanitizeAttr a cur) \<Longrightarrow> x \<in> set cur \<or> fst x = ''style''"
  unfolding sanitizeAttr_steps
  by (auto split: if_splits dest: in_removeAttribute styleStep_subset urlStep_subset)

lemma urlStep_kills: "scriptUrlAttr a \<Longrightarrow> fst a \<notin> fst ` set (urlStep a cur)"
  by (auto simp: scriptUrlAttr_def urlStep_def Let_def set_removeAttribute)

lemma sanitizeAttr_kills:
  assumes "unsafeAttr a"
  shows "fst a \<notin> fst ` set (sanitizeAttr a cur)"
proof (cases "eventHandlerAttr a")
  case True
  then show ?thesis
    by (auto simp: sanitizeAttr_steps eventHandlerAttr_def set_removeAttribute)
next
  case False
  with assms have u: "scriptUrlAttr a" by (simp add: unsafeAttr_def)
  then have "toLowerCase (fst a) \<in> set urlAttrs" by (simp add: scriptUrlAttr_def)
  then have ns: "toLowerCase (fst a) \<noteq> ''style''" by auto
  from False have "sanitizeAttr a cur = urlStep a cur"
    by (simp add: sanitizeAttr_steps eventHandlerAttr_def styleStep_def ns)
  with urlStep_kills [OF u] show ?thesis by simp
qed

lemma sanitizeAttr_absent:
  "n \<noteq> ''style'' \<Longrightarrow> n \<notin> fst ` set cur \<Longrightarrow> n \<notin> fst ` set (sanitizeAttr a cur)"
  using sanitizeAttr_subset by fastforce

lemma fold_subset:
  "x \<in> set (foldl (\<lambda>cur attr. sanitizeAttr attr cur) cur snap) \<Longrightarrow>
   x \<in> set cur \<or> fst x = ''style''"
proof (induction snap arbitrary: cur)
  case Nil
  then show ?case by simp
next
  case (Cons a snap)
  from Cons.IH [of "sanitizeAttr a cur"] Cons.prems
  have "x \<in> set (sanitizeAttr a cur) \<or> fst x = ''style''" by simp
  then show ?case using sanitizeAttr_subset by blast
qed

lemma fold_absent:
  "n \<noteq> ''style'' \<Longrightarrow> n \<notin> fst ` set cur \<Longrightarrow>
   n \<notin> fst ` set (foldl (\<lambda>cur attr. sanitizeAttr attr cur) cur snap)"
  using fold_subset by fastforce

lemma fold_kills:
  "a \<in> set snap \<Longrightarrow> unsafeAttr a \<Longrightarrow>
   fst a \<notin> fst ` set (foldl (\<lambda>cur attr. sanitizeAttr attr cur) cur snap)"
proof (induction snap arbitrary: cur)
  case Nil
  then show ?case by simp
next
  case (Cons b snap)
  show ?case
  proof (cases "a = b")
    case True
    have "fst a \<notin> fst ` set (sanitizeAttr a cur)"
      using Cons.prems(2) by (rule sanitizeAttr_kills)
    with unsafe_not_style [OF Cons.prems(2)] show ?thesis
      unfolding True [symmetric] foldl_Cons by (intro fold_absent)
  next
    case False
    with Cons.prems have "a \<in> set snap" by simp
    from Cons.IH [OF this Cons.prems(2)] show ?thesis by simp
  qed
qed

lemma sanitizeElementAttrs_safe: "list_all (\<lambda>a. \<not> unsafeAttr a) (sanitizeElementAttrs as)"
proof -
  define a2 where "a2 = (let a1 = (if hasAttribute ''bgcolor'' as then removeAttribute ''bgcolor'' as else as)
     in (if hasAttribute ''color'' a1 then removeAttribute ''color'' a1 else a1))"
  have r: "sanitizeElementAttrs as = foldl (\<lambda>cur attr. sanitizeAttr attr cur) a2 a2"
    by (simp add: sanitizeElementAttrs_def a2_def Let_def)
  have "\<not> unsafeAttr x" if x: "x \<in> set (sanitizeElementAttrs as)" for x
  proof
    assume u: "unsafeAttr x"
    from x have "x \<in> set a2 \<or> fst x = ''style''" unfolding r by (rule fold_subset)
    with unsafe_not_style [OF u] have "x \<in> set a2" by simp
    from fold_kills [OF this u, of a2] x show False unfolding r by force
  qed
  then show ?thesis by (simp add: list_all_iff)
qed

lemma openInNewTab_safe:
  "list_all (\<lambda>a. \<not> unsafeAttr a) as \<Longrightarrow> list_all (\<lambda>a. \<not> unsafeAttr a) (openInNewTab tg as)"
proof -
  have t: "\<not> unsafeAttr (''target'', v)" for v
    by (simp add: unsafeAttr_def eventHandlerAttr_def scriptUrlAttr_def startsWith_def
        urlAttrs_def lower_defs)
  have r: "\<not> unsafeAttr (''rel'', v)" for v
    by (simp add: unsafeAttr_def eventHandlerAttr_def scriptUrlAttr_def startsWith_def
        urlAttrs_def lower_defs)
  assume "list_all (\<lambda>a. \<not> unsafeAttr a) as"
  then show ?thesis
    using t r by (auto simp: openInNewTab_def list_all_iff dest!: set_setAttribute)
qed

lemma sanitizeStyles_tags:
  "allElements (\<lambda>tg as. P tg) n \<Longrightarrow> allElements (\<lambda>tg as. P tg) (sanitizeStyles n)"
  by (induction n) (auto simp: list_all_iff setTextContent_def)

lemma sanitizeAttrs_safe:
  "allElements (\<lambda>tg as. P tg) n \<Longrightarrow>
   allElements (\<lambda>tg as. P tg \<and> list_all (\<lambda>a. \<not> unsafeAttr a) as) (sanitizeAttrs n)"
  by (induction n) (auto simp: list_all_iff sanitizeElementAttrs_safe [unfolded list_all_iff])

lemma retargetLinks_safe:
  "allElements (\<lambda>tg as. P tg \<and> list_all (\<lambda>a. \<not> unsafeAttr a) as) n \<Longrightarrow>
   allElements (\<lambda>tg as. P tg \<and> list_all (\<lambda>a. \<not> unsafeAttr a) as) (retargetLinks n)"
  by (induction n) (auto simp: list_all_iff openInNewTab_safe [unfolded list_all_iff])

section \<open>Sanitizer: searching in a cleaned style\<close>








section \<open>Sanitizer: attributes that are left alone\<close>



























section \<open>Sanitizer: trees that are left alone\<close>














section \<open>Sanitizer: what the output cannot contain\<close>

text \<open>
  In the tree that \<open>sanitizeHtml\<close> serialises no element has a tag of the list of
  dangerous tags, no attribute has a name that begins, in lower case, with \<open>on\<close>, and no
  \<open>href\<close>, \<open>src\<close>, \<open>action\<close>, \<open>xlink:href\<close> or \<open>formaction\<close> attribute has a value that
  begins, in lower case, with \<open>javascript:\<close>, \<open>vbscript:\<close>, or \<open>data:\<close> other than
  \<open>data:image/\<close>.
\<close>

lemma sanitizeHtml_safe: "list_all safeNode (sanitizeHtml nodes)"
proof -
  have "list_all (allElements (\<lambda>tg as. tg \<notin> set dangerousTags)) (removeDangerous nodes)"
    by (rule removeDangerous_no_dangerous)
  then have "list_all (\<lambda>n. safeNode (retargetLinks (sanitizeAttrs (sanitizeStyles n))))
      (removeDangerous nodes)"
    unfolding safeNode_def
    by (rule list.pred_mono_strong)
      (intro retargetLinks_safe sanitizeAttrs_safe sanitizeStyles_tags)
  then show ?thesis
    by (simp add: sanitizeHtml_def list_all_iff)
qed

lemma sanitizeHtml_exMail:
  "sanitizeHtml exMail
     = [Element ''a'' [] [Text ''x''],
        Element ''a'' [(''href'', ''https://a.b''), (''target'', ''_blank''),
                       (''rel'', ''noopener noreferrer'')] [],
        Element ''img'' [(''src'', ''data:image/png;base64,AA'')] [],
        Element ''img'' [] [],
        Element ''div'' [(''style'', ''margin:4px'')] [Comment ''c'']]"
  by code_simp

text \<open>
  C1 (the code at the failing input): a link to \<open>javascript:alert(1)\<close> loses its \<open>href\<close>;
  the same link with one space in front of the URL keeps it, and is made to open in a new
  tab. The test is \<open>startsWith\<close> on the value as written, and a browser that follows the
  link drops the leading space before it reads the scheme.
\<close>

theorem sanitizeHtml_keeps_spaced_script_url:
  "sanitizeHtml exScriptLink = [Element ''a'' [] [Text ''x'']]
   \<and> sanitizeHtml exSpacedScriptLink
       = [Element ''a'' [(''href'', '' javascript:alert(1)''), (''target'', ''_blank''),
                         (''rel'', ''noopener noreferrer'')] [Text ''x'']]"
proof -
  have 1: "sanitizeHtml exScriptLink = [Element ''a'' [] [Text ''x'']]"
    by code_simp
  have 2: "sanitizeHtml exSpacedScriptLink
       = [Element ''a'' [(''href'', '' javascript:alert(1)''), (''target'', ''_blank''),
                         (''rel'', ''noopener noreferrer'')] [Text ''x'']]"
    by code_simp
  show ?thesis by (simp add: 1 2)
qed

section \<open>Sanitizer: running it twice\<close>




section \<open>Sanitizer: inline styles\<close>





end
